theory Spec2Isabelle
  imports Main
begin

section \<open>PyCascading function decorators (python/pycascading/decorators.py)\<close>

text \<open>
  The module attaches attributes to user functions. Every exported decorator
  (numargs_expected, python_list_expected, ..., map, filter, reduce) builds a
  dict of attributes and hands it to \<^verbatim>\<open>_function_decorator\<close>, whose inner function
  \<^verbatim>\<open>fun_decorator\<close> either wraps the original function into a new
  DecoratedFunction object or reuses the DecoratedFunction it was given, and then
  merges the attributes into that object's \<^verbatim>\<open>decorators\<close> dict.

  DecoratedFunction objects are mutable and shared by reference, so they live in an
  explicit store; every other Python value is an immutable value of \<open>pyval\<close>.
\<close>

subsection \<open>Values\<close>

text \<open>
  Modelled from the spec: the Java enums
  \<^verbatim>\<open>CascadingBaseOperationWrapper.ConvertInputTuples\<close>,
  \<^verbatim>\<open>CascadingRecordProducerWrapper.OutputMethod\<close>,
  \<^verbatim>\<open>CascadingRecordProducerWrapper.OutputType\<close> and
  \<^verbatim>\<open>CascadingRecordProducerWrapper.FlowProcessPassIn\<close> (package com.twitter.pycascading)
  are not part of the Python sources. The spec lists their cases as input_shape
  {native, list, mapping}, output_mode {auto, collector, lazy_sequence}, output_shape
  {auto, list, native} and receives_context {false, true}; the constructors below carry
  the names the Python module uses for them.
\<close>

datatype ConvertInputTuples = NONE | PYTHON_LIST | PYTHON_DICT

datatype OutputMethod = YIELDS_OR_RETURNS | COLLECTS | YIELDS

datatype OutputType = AUTO | PYTHON_LIST | TUPLE

datatype FlowProcessPassIn = NO | YES

type_synonym addr = nat

text \<open>
  A Python value: \<open>PyNone\<close>, an integer, a string, a list, a function object (known only
  by its identity: the module never looks inside one), one of the Java enum
  constants, or a reference to a DecoratedFunction object in the store.
\<close>

datatype pyval =
    PyNone
  | PyInt int
  | PyStr string
  | PyList "pyval list"
  | PyFunction nat
  | InputConversion ConvertInputTuples
  | OutputMethodVal OutputMethod
  | OutputTypeVal OutputType
  | FlowProcessVal FlowProcessPassIn
  | Ref addr

text \<open>A Python dict with string keys.\<close>

type_synonym dict = "string \<rightharpoonup> pyval"

subsection \<open>The store of DecoratedFunction objects\<close>

record DecoratedFunction =
  decorators :: dict

text \<open>
  \<open>objects\<close> gives the object at each address, \<open>next_addr\<close> is the first address not
  yet handed out: the objects that exist are those below it.
\<close>

record heap =
  objects :: "addr \<Rightarrow> DecoratedFunction"
  next_addr :: addr

text \<open>Creating an object: it is stored at the first free address.\<close>

definition allocate :: "heap \<Rightarrow> DecoratedFunction \<Rightarrow> heap" where
  "allocate h obj = h\<lparr>objects := (objects h)(next_addr h := obj), next_addr := Suc (next_addr h)\<rparr>"

text \<open>The store in which no DecoratedFunction has been created yet.\<close>

definition empty_heap :: heap where
  "empty_heap = \<lparr>objects = (\<lambda>a. \<lparr>decorators = Map.empty\<rparr>), next_addr = 0\<rparr>"

text \<open>
  Modelled from the spec: the class DecoratedFunction (module pycascading.pipe) is not
  part of the sources given. According to the spec a descriptor is created the first
  time a tag is applied to a plain callable and carries no attribute beyond the ones
  the tagging code gives it (expected_arity and declared_output_fields are none
  on a new descriptor), so the constructor \<^verbatim>\<open>DecoratedFunction()\<close> returns a new
  object whose \<^verbatim>\<open>decorators\<close> dict is empty.
\<close>

definition DecoratedFunction_new :: "heap \<Rightarrow> heap \<times> addr" where
  "DecoratedFunction_new h = (allocate h \<lparr>decorators = Map.empty\<rparr>, next_addr h)"

text \<open>\<^verbatim>\<open>dff.decorators[k] = v\<close>\<close>

definition setitem :: "addr \<Rightarrow> string \<Rightarrow> pyval \<Rightarrow> heap \<Rightarrow> heap" where
  "setitem dff k v h =
     h\<lparr>objects := (objects h)(dff := (objects h dff)\<lparr>decorators := (decorators (objects h dff))(k \<mapsto> v)\<rparr>)\<rparr>"

text \<open>\<^verbatim>\<open>dff.decorators.update(d)\<close>: every key of \<open>d\<close> is set to its value in \<open>d\<close>.\<close>

definition update :: "addr \<Rightarrow> dict \<Rightarrow> heap \<Rightarrow> heap" where
  "update dff d h =
     h\<lparr>objects := (objects h)(dff := (objects h dff)\<lparr>decorators := decorators (objects h dff) ++ d\<rparr>)\<rparr>"

text \<open>\<^verbatim>\<open>isinstance(v, DecoratedFunction)\<close>\<close>

fun isinstance_DecoratedFunction :: "pyval \<Rightarrow> bool" where
  "isinstance_DecoratedFunction (Ref a) = True"
| "isinstance_DecoratedFunction _ = False"

subsection \<open>The generic decorator\<close>

text \<open>
  The else branch of \<^verbatim>\<open>fun_decorator\<close> (lines 72 to 84): a new DecoratedFunction
  that holds the original function and the default attributes.
\<close>

definition wrap_function :: "heap \<Rightarrow> pyval \<Rightarrow> heap \<times> addr" where
  "wrap_function h function_or_callabledict =
     (let (h0, dff) = DecoratedFunction_new h;
          h1 = setitem dff ''function'' function_or_callabledict h0;
          h2 = setitem dff ''type'' (PyStr ''none'') h1;
          h3 = setitem dff ''input_conversion'' (InputConversion ConvertInputTuples.NONE) h2;
          h4 = setitem dff ''output_method'' (OutputMethodVal OutputMethod.YIELDS_OR_RETURNS) h3;
          h5 = setitem dff ''output_type'' (OutputTypeVal OutputType.AUTO) h4;
          h6 = setitem dff ''flow_process_pass_in'' (FlowProcessVal FlowProcessPassIn.NO) h5;
          h7 = setitem dff ''args'' PyNone h6;
          h8 = setitem dff ''kwargs'' PyNone h7
      in (h8, dff))"

text \<open>
  \<^verbatim>\<open>fun_decorator\<close>, with the \<^verbatim>\<open>additional_parameters\<close> of the enclosing
  \<^verbatim>\<open>_function_decorator\<close> as its first argument. It returns the new store and the
  reference \<^verbatim>\<open>dff\<close>.
\<close>

definition fun_decorator :: "dict \<Rightarrow> heap \<Rightarrow> pyval \<Rightarrow> heap \<times> pyval" where
  "fun_decorator additional_parameters h function_or_callabledict =
     (let (h', dff) =
            (case function_or_callabledict of
               Ref a \<Rightarrow> (h, a)
             | _ \<Rightarrow> wrap_function h function_or_callabledict)
      in (update dff additional_parameters h', Ref dff))"

text \<open>
  \<^verbatim>\<open>_function_decorator(additional_parameters)\<close> returns the closure. (A name cannot
  start with an underscore here, so it is \<open>function_decorator\<close>.)
\<close>

definition function_decorator :: "dict \<Rightarrow> heap \<Rightarrow> pyval \<Rightarrow> heap \<times> pyval" where
  "function_decorator additional_parameters = fun_decorator additional_parameters"

subsection \<open>The exported decorators\<close>

definition numargs_expected :: "pyval \<Rightarrow> heap \<Rightarrow> pyval \<Rightarrow> heap \<times> pyval" where
  "numargs_expected num = function_decorator [''numargs_expected'' \<mapsto> num]"

definition python_list_expected :: "heap \<Rightarrow> pyval \<Rightarrow> heap \<times> pyval" where
  "python_list_expected =
     function_decorator [''input_conversion'' \<mapsto> InputConversion ConvertInputTuples.PYTHON_LIST]"

definition python_dict_expected :: "heap \<Rightarrow> pyval \<Rightarrow> heap \<times> pyval" where
  "python_dict_expected =
     function_decorator [''input_conversion'' \<mapsto> InputConversion ConvertInputTuples.PYTHON_DICT]"

definition collects_output :: "heap \<Rightarrow> pyval \<Rightarrow> heap \<times> pyval" where
  "collects_output =
     function_decorator [''output_method'' \<mapsto> OutputMethodVal OutputMethod.COLLECTS]"

definition yields :: "heap \<Rightarrow> pyval \<Rightarrow> heap \<times> pyval" where
  "yields = function_decorator [''output_method'' \<mapsto> OutputMethodVal OutputMethod.YIELDS]"

definition produces_python_list :: "heap \<Rightarrow> pyval \<Rightarrow> heap \<times> pyval" where
  "produces_python_list =
     function_decorator [''output_type'' \<mapsto> OutputTypeVal OutputType.PYTHON_LIST]"

definition produces_tuples :: "heap \<Rightarrow> pyval \<Rightarrow> heap \<times> pyval" where
  "produces_tuples = function_decorator [''output_type'' \<mapsto> OutputTypeVal OutputType.TUPLE]"

definition flowprocess_expected :: "heap \<Rightarrow> pyval \<Rightarrow> heap \<times> pyval" where
  "flowprocess_expected =
     function_decorator [''flow_process_pass_in'' \<mapsto> FlowProcessVal FlowProcessPassIn.YES]"

text \<open>\<^verbatim>\<open>filter()\<close>; \<open>filter\<close> and \<open>map\<close> are names of the list library, hence the suffix.\<close>

definition filter_py :: "heap \<Rightarrow> pyval \<Rightarrow> heap \<times> pyval" where
  "filter_py = function_decorator [''type'' \<mapsto> PyStr ''filter'']"

text \<open>
  \<^verbatim>\<open>map(produces=None)\<close> and \<^verbatim>\<open>reduce(produces=None)\<close>: the argument is optional,
  and a call without it binds \<^verbatim>\<open>produces\<close> to \<^verbatim>\<open>None\<close>.
\<close>

definition default_arg :: "pyval option \<Rightarrow> pyval" where
  "default_arg arg = (case arg of None \<Rightarrow> PyNone | Some v \<Rightarrow> v)"

definition map_py :: "pyval option \<Rightarrow> heap \<Rightarrow> pyval \<Rightarrow> heap \<times> pyval" where
  "map_py produces =
     function_decorator [''type'' \<mapsto> PyStr ''map'', ''produces'' \<mapsto> default_arg produces]"

definition reduce :: "pyval option \<Rightarrow> heap \<Rightarrow> pyval \<Rightarrow> heap \<times> pyval" where
  "reduce produces =
     function_decorator [''type'' \<mapsto> PyStr ''reduce'', ''produces'' \<mapsto> default_arg produces]"

subsection \<open>Applying several decorators\<close>

text \<open>
  Decorators are stacked: \<^verbatim>\<open>tn(...(t2(t1(f))))\<close>, each \<^verbatim>\<open>ti\<close> being
  \<^verbatim>\<open>_function_decorator(di)\<close> for a dict \<^verbatim>\<open>di\<close>. \<open>apply_tags [d1, ..., dn] h f\<close>
  runs these calls from the innermost one outwards.
\<close>

fun apply_tags :: "dict list \<Rightarrow> heap \<Rightarrow> pyval \<Rightarrow> heap \<times> pyval" where
  "apply_tags [] h v = (h, v)"
| "apply_tags (t # ts) h v =
     (case function_decorator t h v of (h', v') \<Rightarrow> apply_tags ts h' v')"

text \<open>The dict that lines 73 to 84 build for the original function \<open>f\<close>, written out.\<close>

definition initial_decorators :: "pyval \<Rightarrow> dict" where
  "initial_decorators f =
     [''function'' \<mapsto> f,
      ''type'' \<mapsto> PyStr ''none'',
      ''input_conversion'' \<mapsto> InputConversion ConvertInputTuples.NONE,
      ''output_method'' \<mapsto> OutputMethodVal OutputMethod.YIELDS_OR_RETURNS,
      ''output_type'' \<mapsto> OutputTypeVal OutputType.AUTO,
      ''flow_process_pass_in'' \<mapsto> FlowProcessVal FlowProcessPassIn.NO,
      ''args'' \<mapsto> PyNone,
      ''kwargs'' \<mapsto> PyNone]"

section \<open>Basic facts\<close>

lemma wrap_function_eq:
  "wrap_function h f = (allocate h \<lparr>decorators = initial_decorators f\<rparr>, next_addr h)"
  by (simp add: wrap_function_def DecoratedFunction_new_def setitem_def allocate_def initial_decorators_def)

lemma update_allocate:
  "update (next_addr h) d (allocate h \<lparr>decorators = m\<rparr>) = allocate h \<lparr>decorators = m ++ d\<rparr>"
  by (simp add: update_def allocate_def)

lemma fun_decorator_Ref: "fun_decorator ap h (Ref a) = (update a ap h, Ref a)"
  by (simp add: fun_decorator_def)

lemma fun_decorator_plain:
  "\<not> isinstance_DecoratedFunction f \<Longrightarrow>
   fun_decorator ap h f = (allocate h \<lparr>decorators = initial_decorators f ++ ap\<rparr>, Ref (next_addr h))"
  by (cases f) (simp_all add: fun_decorator_def wrap_function_eq update_allocate)

lemma update_update: "update a d2 (update a d1 h) = update a (d1 ++ d2) h"
  by (simp add: update_def)

lemma update_empty: "update a Map.empty h = h"
  by (simp add: update_def)

lemma decorators_update:
  "decorators (objects (update a d h) b) = (if b = a then decorators (objects h a) ++ d else decorators (objects h b))"
  by (simp add: update_def)

lemma objects_update_other: "b \<noteq> a \<Longrightarrow> objects (update a d h) b = objects h b"
  by (simp add: update_def)

lemma next_addr_update: "next_addr (update a d h) = next_addr h"
  by (simp add: update_def)

lemma decorators_allocate: "decorators (objects (allocate h \<lparr>decorators = m\<rparr>) (next_addr h)) = m"
  by (simp add: allocate_def)

lemma objects_allocate_other: "b \<noteq> next_addr h \<Longrightarrow> objects (allocate h obj) b = objects h b"
  by (simp add: allocate_def)

lemma next_addr_allocate: "next_addr (allocate h obj) = Suc (next_addr h)"
  by (simp add: allocate_def)

lemma foldl_map_add: "foldl (++) m ts = m ++ foldl (++) Map.empty ts"
  by (induction ts rule: rev_induct) simp_all

lemma foldl_map_add_lookup:
  "foldl (++) m ts k = (case filter (\<lambda>t. t k \<noteq> None) (rev ts) of [] \<Rightarrow> m k | t # _ \<Rightarrow> t k)"
  by (induction ts rule: rev_induct) (auto simp: map_add_def split: option.splits)

lemma apply_tags_Ref: "apply_tags ts h (Ref a) = (update a (foldl (++) Map.empty ts) h, Ref a)"
proof (induction ts arbitrary: h)
  case Nil
  show ?case by (simp add: update_empty)
next
  case (Cons t ts)
  have "foldl (++) t ts = t ++ foldl (++) Map.empty ts" by (rule foldl_map_add)
  then show ?case
    by (simp add: function_decorator_def fun_decorator_Ref Cons.IH update_update)
qed

lemma apply_tags_plain:
  assumes "\<not> isinstance_DecoratedFunction f"
  shows "apply_tags (t # ts) h f =
           (allocate h \<lparr>decorators = foldl (++) (initial_decorators f) (t # ts)\<rparr>, Ref (next_addr h))"
proof -
  have "update (next_addr h) (foldl (++) Map.empty ts) (allocate h \<lparr>decorators = initial_decorators f ++ t\<rparr>)
        = allocate h \<lparr>decorators = (initial_decorators f ++ t) ++ foldl (++) Map.empty ts\<rparr>"
    by (rule update_allocate)
  also have "(initial_decorators f ++ t) ++ foldl (++) Map.empty ts = foldl (++) (initial_decorators f) (t # ts)"
    using foldl_map_add [of "initial_decorators f ++ t" ts] by simp
  finally show ?thesis
    using assms by (simp add: function_decorator_def fun_decorator_plain apply_tags_Ref)
qed

lemma initial_decorators_dom:
  "dom (initial_decorators f) =
     {''function'', ''type'', ''input_conversion'', ''output_method'', ''output_type'',
      ''flow_process_pass_in'', ''args'', ''kwargs''}"
  unfolding initial_decorators_def dom_fun_upd dom_empty
  by (simp only: option.simps if_False insert_commute)

lemma map_add_idem: "m ++ m = m"
  by (rule ext) (simp add: map_add_def split: option.splits)

lemma isinstance_Ref: "isinstance_DecoratedFunction v \<Longrightarrow> \<exists>a. v = Ref a"
  by (cases v) simp_all

lemma fun_decorator_shape: "\<exists>hx a. fun_decorator ap h v = (update a ap hx, Ref a)"
proof (cases "isinstance_DecoratedFunction v")
  case True
  then obtain a where "v = Ref a" using isinstance_Ref by blast
  then show ?thesis by (auto simp: fun_decorator_Ref)
next
  case False
  then have "fun_decorator ap h v
      = (update (next_addr h) ap (allocate h \<lparr>decorators = initial_decorators v\<rparr>), Ref (next_addr h))"
    by (simp add: fun_decorator_plain update_allocate)
  then show ?thesis by blast
qed

lemma function_decorator_stores:
  assumes "ap k = Some x"
  shows "\<exists>h' a. function_decorator ap h v = (h', Ref a) \<and> decorators (objects h' a) k = Some x"
proof -
  obtain hx a where "fun_decorator ap h v = (update a ap hx, Ref a)"
    using fun_decorator_shape by blast
  moreover have "decorators (objects (update a ap hx) a) k = Some x"
    using assms by (simp add: decorators_update)
  ultimately show ?thesis unfolding function_decorator_def by blast
qed

lemma foldl_map_add_untouched:
  "(\<forall>u \<in> set ts. u k = None) \<Longrightarrow> foldl (++) m ts k = m k"
  by (induction ts rule: rev_induct) (simp_all add: map_add_def)

lemma initial_decorators_other:
  "k \<noteq> ''function'' \<Longrightarrow> initial_decorators f k = initial_decorators g k"
  by (simp add: initial_decorators_def)

lemma initial_decorators_function: "initial_decorators f ''function'' = Some f"
  by (simp add: initial_decorators_def)

section \<open>Properties\<close>

subsection \<open>Sequences of decorators\<close>

text \<open>
  C1. Let \<open>f\<close> be a plain callable (any value that is not a DecoratedFunction) and
  \<open>t, ts\<close> a non-empty sequence of attribute dicts applied to it in order. The first
  application creates the descriptor at the first free address (\<open>h0\<close> is the store
  right after lines 72 to 84); every later one returns that same descriptor. Its final
  attribute dict is the new descriptor's dict with the dicts of the sequence merged in
  from left to right; key by key, the value is the one of the last dict of the
  sequence that has the key, and the new descriptor's own value if none has it.
\<close>

theorem tags_applied_in_order:
  assumes "\<not> isinstance_DecoratedFunction f"
  shows "\<exists>h0 h'. wrap_function h f = (h0, next_addr h) \<and>
           apply_tags (t # ts) h f = (h', Ref (next_addr h)) \<and>
           decorators (objects h' (next_addr h)) =
             foldl (++) (decorators (objects h0 (next_addr h))) (t # ts) \<and>
           (\<forall>k. decorators (objects h' (next_addr h)) k =
              (case filter (\<lambda>u. u k \<noteq> None) (rev (t # ts)) of
                 [] \<Rightarrow> decorators (objects h0 (next_addr h)) k
               | u # _ \<Rightarrow> u k))"
proof -
  let ?h0 = "allocate h \<lparr>decorators = initial_decorators f\<rparr>"
  let ?h' = "allocate h \<lparr>decorators = foldl (++) (initial_decorators f) (t # ts)\<rparr>"
  have w: "wrap_function h f = (?h0, next_addr h)" by (rule wrap_function_eq)
  have a: "apply_tags (t # ts) h f = (?h', Ref (next_addr h))"
    using assms by (rule apply_tags_plain)
  have d0: "decorators (objects ?h0 (next_addr h)) = initial_decorators f"
    by (rule decorators_allocate)
  have d': "decorators (objects ?h' (next_addr h)) = foldl (++) (initial_decorators f) (t # ts)"
    by (rule decorators_allocate)
  have l: "\<forall>k. decorators (objects ?h' (next_addr h)) k =
              (case filter (\<lambda>u. u k \<noteq> None) (rev (t # ts)) of
                 [] \<Rightarrow> decorators (objects ?h0 (next_addr h)) k
               | u # _ \<Rightarrow> u k)"
    unfolding d0 d' by (rule allI) (rule foldl_map_add_lookup)
  from w a d0 d' l show ?thesis by metis
qed

theorem tags_applied_in_order_witness:
  "\<not> isinstance_DecoratedFunction (PyFunction 7) \<and>
   (\<exists>h'. apply_tags [[''type'' \<mapsto> PyStr ''filter''], [''numargs_expected'' \<mapsto> PyInt 1],
                      [''type'' \<mapsto> PyStr ''map'', ''produces'' \<mapsto> PyNone]] empty_heap (PyFunction 7)
           = (h', Ref 0) \<and>
      decorators (objects h' 0) ''type'' = Some (PyStr ''map'') \<and>
      decorators (objects h' 0) ''numargs_expected'' = Some (PyInt 1) \<and>
      decorators (objects h' 0) ''function'' = Some (PyFunction 7))"
proof -
  let ?ts = "[[''numargs_expected'' \<mapsto> PyInt 1], [''type'' \<mapsto> PyStr ''map'', ''produces'' \<mapsto> PyNone]]"
  have p: "\<not> isinstance_DecoratedFunction (PyFunction 7)" by simp
  have n: "next_addr empty_heap = 0" by (simp add: empty_heap_def)
  from tags_applied_in_order [OF p, of empty_heap "[''type'' \<mapsto> PyStr ''filter'']" ?ts]
  obtain h0 h' where
    w: "wrap_function empty_heap (PyFunction 7) = (h0, 0)" and
    a: "apply_tags ([''type'' \<mapsto> PyStr ''filter''] # ?ts) empty_heap (PyFunction 7) = (h', Ref 0)" and
    d: "decorators (objects h' 0) = foldl (++) (decorators (objects h0 0)) ([''type'' \<mapsto> PyStr ''filter''] # ?ts)"
    unfolding n by blast
  from w have "h0 = fst (wrap_function empty_heap (PyFunction 7))" by simp
  then have d0: "decorators (objects h0 0) ''function'' = Some (PyFunction 7)"
    by (simp add: wrap_function_def DecoratedFunction_new_def allocate_def setitem_def empty_heap_def)
  from d d0 have "decorators (objects h' 0) ''type'' = Some (PyStr ''map'')"
    and "decorators (objects h' 0) ''numargs_expected'' = Some (PyInt 1)"
    and "decorators (objects h' 0) ''function'' = Some (PyFunction 7)"
    by (simp_all add: map_add_def)
  with p a show ?thesis by blast
qed

subsection \<open>The first application: a new descriptor with the defaults\<close>

text \<open>
  C2. Applying a decorator with any attribute dict to a plain callable \<open>f\<close> first
  builds a new DecoratedFunction (\<open>wrap_function\<close>, at the first free address, leaving
  every other object as it was) and only then merges the decorator's own dict into it.
  In the store \<open>h0\<close> between the two steps the new object holds \<open>f\<close> and the defaults:
  type 'none' (role unset), input_conversion NONE (native input), output_method
  YIELDS_OR_RETURNS (automatic), output_type AUTO, flow_process_pass_in NO; it has no
  entry for numargs_expected or for produces (no expected arity, no declared output
  fields). Its only other entries are args and kwargs, both \<open>None\<close>.
\<close>

theorem new_descriptor_defaults:
  assumes "\<not> isinstance_DecoratedFunction f"
  shows "\<exists>h0 dff. wrap_function h f = (h0, dff) \<and>
           function_decorator additional_parameters h f = (update dff additional_parameters h0, Ref dff) \<and>
           dff = next_addr h \<and> next_addr h0 = Suc (next_addr h) \<and>
           (\<forall>b. b \<noteq> dff \<longrightarrow> objects h0 b = objects h b) \<and>
           decorators (objects h0 dff) ''function'' = Some f \<and>
           decorators (objects h0 dff) ''type'' = Some (PyStr ''none'') \<and>
           decorators (objects h0 dff) ''input_conversion'' = Some (InputConversion ConvertInputTuples.NONE) \<and>
           decorators (objects h0 dff) ''output_method'' = Some (OutputMethodVal OutputMethod.YIELDS_OR_RETURNS) \<and>
           decorators (objects h0 dff) ''output_type'' = Some (OutputTypeVal OutputType.AUTO) \<and>
           decorators (objects h0 dff) ''flow_process_pass_in'' = Some (FlowProcessVal FlowProcessPassIn.NO) \<and>
           decorators (objects h0 dff) ''numargs_expected'' = None \<and>
           decorators (objects h0 dff) ''produces'' = None \<and>
           decorators (objects h0 dff) ''args'' = Some PyNone \<and>
           decorators (objects h0 dff) ''kwargs'' = Some PyNone \<and>
           dom (decorators (objects h0 dff)) =
             {''function'', ''type'', ''input_conversion'', ''output_method'', ''output_type'',
              ''flow_process_pass_in'', ''args'', ''kwargs''}"
proof -
  let ?h0 = "allocate h \<lparr>decorators = initial_decorators f\<rparr>"
  have w: "wrap_function h f = (?h0, next_addr h)" by (rule wrap_function_eq)
  have d: "decorators (objects ?h0 (next_addr h)) = initial_decorators f"
    by (rule decorators_allocate)
  have u: "function_decorator additional_parameters h f
             = (update (next_addr h) additional_parameters ?h0, Ref (next_addr h))"
    using assms by (simp add: function_decorator_def fun_decorator_plain update_allocate)
  have n: "next_addr ?h0 = Suc (next_addr h)" by (rule next_addr_allocate)
  have o: "\<forall>b. b \<noteq> next_addr h \<longrightarrow> objects ?h0 b = objects h b"
    by (simp add: objects_allocate_other)
  have v: "initial_decorators f ''function'' = Some f"
    "initial_decorators f ''type'' = Some (PyStr ''none'')"
    "initial_decorators f ''input_conversion'' = Some (InputConversion ConvertInputTuples.NONE)"
    "initial_decorators f ''output_method'' = Some (OutputMethodVal OutputMethod.YIELDS_OR_RETURNS)"
    "initial_decorators f ''output_type'' = Some (OutputTypeVal OutputType.AUTO)"
    "initial_decorators f ''flow_process_pass_in'' = Some (FlowProcessVal FlowProcessPassIn.NO)"
    "initial_decorators f ''numargs_expected'' = None"
    "initial_decorators f ''produces'' = None"
    "initial_decorators f ''args'' = Some PyNone"
    "initial_decorators f ''kwargs'' = Some PyNone"
    by (simp_all add: initial_decorators_def)
  show ?thesis
    apply (rule exI [of _ ?h0])
    apply (rule exI [of _ "next_addr h"])
    apply (simp only: w u n d v initial_decorators_dom)
    using o apply simp
    done
qed

theorem new_descriptor_defaults_witness:
  "\<not> isinstance_DecoratedFunction (PyFunction 3) \<and>
   (\<exists>h0. wrap_function empty_heap (PyFunction 3) = (h0, 0) \<and>
      python_list_expected empty_heap (PyFunction 3)
        = (update 0 [''input_conversion'' \<mapsto> InputConversion ConvertInputTuples.PYTHON_LIST] h0, Ref 0) \<and>
      objects h0 1 = objects empty_heap 1 \<and>
      decorators (objects h0 0) ''type'' = Some (PyStr ''none'') \<and>
      decorators (objects h0 0) ''input_conversion'' = Some (InputConversion ConvertInputTuples.NONE) \<and>
      decorators (objects h0 0) ''numargs_expected'' = None)"
proof -
  have p: "\<not> isinstance_DecoratedFunction (PyFunction 3)" by simp
  have n: "next_addr empty_heap = 0" by (simp add: empty_heap_def)
  from new_descriptor_defaults [OF p, of empty_heap
      "[''input_conversion'' \<mapsto> InputConversion ConvertInputTuples.PYTHON_LIST]"]
  obtain h0 dff where
    "wrap_function empty_heap (PyFunction 3) = (h0, dff)" and
    "function_decorator [''input_conversion'' \<mapsto> InputConversion ConvertInputTuples.PYTHON_LIST]
       empty_heap (PyFunction 3)
     = (update dff [''input_conversion'' \<mapsto> InputConversion ConvertInputTuples.PYTHON_LIST] h0, Ref dff)" and
    "dff = next_addr empty_heap" and
    "\<forall>b. b \<noteq> dff \<longrightarrow> objects h0 b = objects empty_heap b" and
    "decorators (objects h0 dff) ''type'' = Some (PyStr ''none'')" and
    "decorators (objects h0 dff) ''input_conversion'' = Some (InputConversion ConvertInputTuples.NONE)" and
    "decorators (objects h0 dff) ''numargs_expected'' = None"
    by (elim exE conjE)
  with p n show ?thesis
    unfolding python_list_expected_def by (intro conjI exI [of _ h0]) simp_all
qed

subsection \<open>Later applications: the same descriptor, changed in place\<close>

text \<open>
  C3. Applying a decorator with any attribute dict to an existing DecoratedFunction
  (the reference \<open>Ref a\<close>) returns that same reference and creates no object; no other
  object changes; in the object itself every key that the decorator's dict does not
  have keeps its value, and every key the dict has takes the dict's value.
\<close>

theorem tag_on_descriptor_in_place:
  "\<exists>h'. function_decorator additional_parameters h (Ref a) = (h', Ref a) \<and>
         next_addr h' = next_addr h \<and>
         (\<forall>b. b \<noteq> a \<longrightarrow> objects h' b = objects h b) \<and>
         (\<forall>k. additional_parameters k = None \<longrightarrow>
              decorators (objects h' a) k = decorators (objects h a) k) \<and>
         (\<forall>k v. additional_parameters k = Some v \<longrightarrow> decorators (objects h' a) k = Some v)"
proof -
  let ?h' = "update a additional_parameters h"
  have "function_decorator additional_parameters h (Ref a) = (?h', Ref a)"
    by (simp add: function_decorator_def fun_decorator_Ref)
  moreover have "next_addr ?h' = next_addr h" by (rule next_addr_update)
  moreover have "\<forall>b. b \<noteq> a \<longrightarrow> objects ?h' b = objects h b"
    by (simp add: objects_update_other)
  moreover have "\<forall>k. additional_parameters k = None \<longrightarrow>
              decorators (objects ?h' a) k = decorators (objects h a) k"
    by (simp add: decorators_update map_add_def)
  moreover have "\<forall>k v. additional_parameters k = Some v \<longrightarrow> decorators (objects ?h' a) k = Some v"
    by (simp add: decorators_update)
  ultimately show ?thesis by blast
qed

theorem tag_on_descriptor_in_place_witness:
  "\<exists>h1 h'. map_py (Some (PyList [PyStr ''a''])) empty_heap (PyFunction 1) = (h1, Ref 0) \<and>
      filter_py h1 (Ref 0) = (h', Ref 0) \<and>
      next_addr h' = 1 \<and>
      objects h' 1 = objects h1 1 \<and>
      decorators (objects h' 0) ''produces'' = Some (PyList [PyStr ''a'']) \<and>
      decorators (objects h' 0) ''function'' = Some (PyFunction 1) \<and>
      decorators (objects h' 0) ''type'' = Some (PyStr ''filter'')"
proof -
  let ?m = "[''type'' \<mapsto> PyStr ''map'', ''produces'' \<mapsto> PyList [PyStr ''a'']]"
  let ?h1 = "allocate empty_heap \<lparr>decorators = initial_decorators (PyFunction 1) ++ ?m\<rparr>"
  have m: "map_py (Some (PyList [PyStr ''a''])) empty_heap (PyFunction 1) = (?h1, Ref 0)"
    by (simp add: map_py_def default_arg_def function_decorator_def fun_decorator_plain empty_heap_def)
  from tag_on_descriptor_in_place [of "[''type'' \<mapsto> PyStr ''filter'']" ?h1 0]
  obtain h' where
    r: "function_decorator [''type'' \<mapsto> PyStr ''filter''] ?h1 (Ref 0) = (h', Ref 0)" and
    n: "next_addr h' = next_addr ?h1" and
    o: "\<forall>b. b \<noteq> 0 \<longrightarrow> objects h' b = objects ?h1 b" and
    k: "\<forall>k. [''type'' \<mapsto> PyStr ''filter''] k = None \<longrightarrow>
              decorators (objects h' 0) k = decorators (objects ?h1 0) k" and
    s: "\<forall>k v. [''type'' \<mapsto> PyStr ''filter''] k = Some v \<longrightarrow> decorators (objects h' 0) k = Some v"
    by (elim exE conjE)
  from n have n1: "next_addr h' = 1" by (simp add: allocate_def empty_heap_def)
  from o have o1: "objects h' 1 = objects ?h1 1" by simp
  from k have "decorators (objects h' 0) ''produces'' = decorators (objects ?h1 0) ''produces''"
    and "decorators (objects h' 0) ''function'' = decorators (objects ?h1 0) ''function''"
    by simp_all
  then have k1: "decorators (objects h' 0) ''produces'' = Some (PyList [PyStr ''a''])"
    and k2: "decorators (objects h' 0) ''function'' = Some (PyFunction 1)"
    by (simp_all add: allocate_def empty_heap_def initial_decorators_def)
  from s have s1: "decorators (objects h' 0) ''type'' = Some (PyStr ''filter'')" by simp
  from r have r1: "filter_py ?h1 (Ref 0) = (h', Ref 0)" by (simp only: filter_py_def)
  show ?thesis
    by (rule exI [of _ ?h1], rule exI [of _ h']) (intro conjI m r1 n1 o1 k1 k2 s1)
qed

subsection \<open>Input conversion: the last decorator wins\<close>

text \<open>
  C4. Applying python_list_expected() to any value (a plain callable or a
  DecoratedFunction) and then python_dict_expected() to the result leaves
  input_conversion at PYTHON_DICT: the second write replaces the PYTHON_LIST of the
  first, on the same descriptor.
\<close>

theorem list_then_dict_expected:
  "\<exists>h1 h2 a. python_list_expected h v = (h1, Ref a) \<and>
              python_dict_expected h1 (Ref a) = (h2, Ref a) \<and>
              decorators (objects h1 a) ''input_conversion''
                = Some (InputConversion ConvertInputTuples.PYTHON_LIST) \<and>
              decorators (objects h2 a) ''input_conversion''
                = Some (InputConversion ConvertInputTuples.PYTHON_DICT)"
proof -
  let ?l = "[''input_conversion'' \<mapsto> InputConversion ConvertInputTuples.PYTHON_LIST]"
  let ?d = "[''input_conversion'' \<mapsto> InputConversion ConvertInputTuples.PYTHON_DICT]"
  have "?l ''input_conversion'' = Some (InputConversion ConvertInputTuples.PYTHON_LIST)" by simp
  then have "\<exists>h' a. function_decorator ?l h v = (h', Ref a) \<and>
      decorators (objects h' a) ''input_conversion'' = Some (InputConversion ConvertInputTuples.PYTHON_LIST)"
    by (rule function_decorator_stores)
  then obtain h1 a where
    1: "function_decorator ?l h v = (h1, Ref a)" and
    2: "decorators (objects h1 a) ''input_conversion'' = Some (InputConversion ConvertInputTuples.PYTHON_LIST)"
    by blast
  have 3: "function_decorator ?d h1 (Ref a) = (update a ?d h1, Ref a)"
    by (simp add: function_decorator_def fun_decorator_Ref)
  have 4: "decorators (objects (update a ?d h1) a) ''input_conversion''
             = Some (InputConversion ConvertInputTuples.PYTHON_DICT)"
    by (simp add: decorators_update)
  from 1 2 3 4 show ?thesis
    unfolding python_list_expected_def python_dict_expected_def by blast
qed

subsection \<open>No validation when decorating\<close>

text \<open>
  C5. Every exported decorator, with any argument and applied to any value (a plain
  callable or a DecoratedFunction), returns a reference to a DecoratedFunction: the
  module has no raise, no assert and no check of a value. What it was given is stored
  as it is. In particular numargs_expected stores any \<open>num\<close> whatever, and so any integer
  \<open>n\<close>, negative or not; map and reduce store whatever \<open>produces\<close> is.
\<close>

theorem no_validation:
  "(\<exists>h' a. numargs_expected num h v = (h', Ref a) \<and>
       decorators (objects h' a) ''numargs_expected'' = Some num) \<and>
   (\<exists>h' a. numargs_expected (PyInt n) h v = (h', Ref a) \<and>
       decorators (objects h' a) ''numargs_expected'' = Some (PyInt n)) \<and>
   (\<exists>h' a. python_list_expected h v = (h', Ref a) \<and>
       decorators (objects h' a) ''input_conversion'' = Some (InputConversion ConvertInputTuples.PYTHON_LIST)) \<and>
   (\<exists>h' a. python_dict_expected h v = (h', Ref a) \<and>
       decorators (objects h' a) ''input_conversion'' = Some (InputConversion ConvertInputTuples.PYTHON_DICT)) \<and>
   (\<exists>h' a. collects_output h v = (h', Ref a) \<and>
       decorators (objects h' a) ''output_method'' = Some (OutputMethodVal OutputMethod.COLLECTS)) \<and>
   (\<exists>h' a. yields h v = (h', Ref a) \<and>
       decorators (objects h' a) ''output_method'' = Some (OutputMethodVal OutputMethod.YIELDS)) \<and>
   (\<exists>h' a. produces_python_list h v = (h', Ref a) \<and>
       decorators (objects h' a) ''output_type'' = Some (OutputTypeVal OutputType.PYTHON_LIST)) \<and>
   (\<exists>h' a. produces_tuples h v = (h', Ref a) \<and>
       decorators (objects h' a) ''output_type'' = Some (OutputTypeVal OutputType.TUPLE)) \<and>
   (\<exists>h' a. flowprocess_expected h v = (h', Ref a) \<and>
       decorators (objects h' a) ''flow_process_pass_in'' = Some (FlowProcessVal FlowProcessPassIn.YES)) \<and>
   (\<exists>h' a. filter_py h v = (h', Ref a) \<and>
       decorators (objects h' a) ''type'' = Some (PyStr ''filter'')) \<and>
   (\<exists>h' a. map_py produces h v = (h', Ref a) \<and>
       decorators (objects h' a) ''type'' = Some (PyStr ''map'') \<and>
       decorators (objects h' a) ''produces'' = Some (default_arg produces)) \<and>
   (\<exists>h' a. reduce produces h v = (h', Ref a) \<and>
       decorators (objects h' a) ''type'' = Some (PyStr ''reduce'') \<and>
       decorators (objects h' a) ''produces'' = Some (default_arg produces))"
proof -
  have two: "\<exists>h' a. function_decorator [''type'' \<mapsto> t, ''produces'' \<mapsto> p] h v = (h', Ref a) \<and>
       decorators (objects h' a) ''type'' = Some t \<and>
       decorators (objects h' a) ''produces'' = Some p" for t p
  proof -
    obtain hx a where
      "fun_decorator [''type'' \<mapsto> t, ''produces'' \<mapsto> p] h v
         = (update a [''type'' \<mapsto> t, ''produces'' \<mapsto> p] hx, Ref a)"
      using fun_decorator_shape by blast
    then show ?thesis
      unfolding function_decorator_def by (simp add: decorators_update)
  qed
  have one: "\<exists>h' a. function_decorator [k \<mapsto> x] h v = (h', Ref a) \<and>
       decorators (objects h' a) k = Some x" for k x
    by (rule function_decorator_stores) simp
  show ?thesis
    unfolding numargs_expected_def python_list_expected_def python_dict_expected_def
      collects_output_def yields_def produces_python_list_def produces_tuples_def
      flowprocess_expected_def filter_py_def map_py_def reduce_def
    by (intro conjI one two)
qed

subsection \<open>The wrapped callable is stored and nothing else\<close>

text \<open>
  C6. Decorating uses the callable in one place only, the assignment to
  \<^verbatim>\<open>dff.decorators['function']\<close>: no call, no look at its arity or at anything else
  of it. So the outcome does not depend on what the callable is or does. For any two
  plain callables \<open>f\<close> and \<open>g\<close> and any non-empty sequence of attribute dicts, decorating
  \<open>f\<close> and decorating \<open>g\<close> from the same store returns the same reference and gives
  stores that leave every older object untouched and agree on every attribute of the
  new descriptor other than function; and function holds \<open>f\<close>, respectively \<open>g\<close>, itself,
  as long as no dict of the sequence has the key function (none of the exported
  decorators has it).
\<close>

theorem callable_only_stored:
  assumes "\<not> isinstance_DecoratedFunction f" and "\<not> isinstance_DecoratedFunction g"
  shows "\<exists>hf hg. apply_tags (t # ts) h f = (hf, Ref (next_addr h)) \<and>
           apply_tags (t # ts) h g = (hg, Ref (next_addr h)) \<and>
           next_addr hf = next_addr hg \<and>
           (\<forall>b. b \<noteq> next_addr h \<longrightarrow> objects hf b = objects h b \<and> objects hg b = objects h b) \<and>
           (\<forall>k. k \<noteq> ''function'' \<longrightarrow>
                decorators (objects hf (next_addr h)) k = decorators (objects hg (next_addr h)) k) \<and>
           ((\<forall>u \<in> set (t # ts). u ''function'' = None) \<longrightarrow>
                decorators (objects hf (next_addr h)) ''function'' = Some f \<and>
                decorators (objects hg (next_addr h)) ''function'' = Some g)"
proof -
  let ?m = "foldl (++) Map.empty (t # ts)"
  let ?H = "\<lambda>x. allocate h \<lparr>decorators = foldl (++) (initial_decorators x) (t # ts)\<rparr>"
  have af: "apply_tags (t # ts) h f = (?H f, Ref (next_addr h))"
    using assms(1) by (rule apply_tags_plain)
  have ag: "apply_tags (t # ts) h g = (?H g, Ref (next_addr h))"
    using assms(2) by (rule apply_tags_plain)
  have n: "next_addr (?H f) = next_addr (?H g)" by (simp add: next_addr_allocate)
  have o: "\<forall>b. b \<noteq> next_addr h \<longrightarrow> objects (?H f) b = objects h b \<and> objects (?H g) b = objects h b"
    by (simp add: objects_allocate_other)
  have d: "decorators (objects (?H x) (next_addr h)) = initial_decorators x ++ ?m" for x
    using foldl_map_add [of "initial_decorators x" "t # ts"] by (simp only: decorators_allocate)
  have k: "\<forall>k. k \<noteq> ''function'' \<longrightarrow>
             decorators (objects (?H f) (next_addr h)) k = decorators (objects (?H g) (next_addr h)) k"
    unfolding d using initial_decorators_other [of _ f g] by (simp add: map_add_def split: option.splits)
  have s: "decorators (objects (?H x) (next_addr h)) ''function'' = Some x"
    if "\<forall>u \<in> set (t # ts). u ''function'' = None" for x
    using foldl_map_add_untouched [OF that, of "initial_decorators x"]
    by (simp only: decorators_allocate initial_decorators_function)
  have s': "(\<forall>u \<in> set (t # ts). u ''function'' = None) \<longrightarrow>
             decorators (objects (?H f) (next_addr h)) ''function'' = Some f \<and>
             decorators (objects (?H g) (next_addr h)) ''function'' = Some g"
    using s by blast
  show ?thesis
    by (rule exI [of _ "?H f"], rule exI [of _ "?H g"]) (intro conjI af ag n o k s')
qed

theorem callable_only_stored_witness:
  "\<not> isinstance_DecoratedFunction (PyFunction 1) \<and> \<not> isinstance_DecoratedFunction (PyFunction 2) \<and>
   [''type'' \<mapsto> PyStr ''filter''] ''function'' = None \<and>
   [''numargs_expected'' \<mapsto> PyInt 2] ''function'' = None \<and>
   (\<exists>hf hg.
      apply_tags [[''type'' \<mapsto> PyStr ''filter''], [''numargs_expected'' \<mapsto> PyInt 2]] empty_heap (PyFunction 1)
        = (hf, Ref 0) \<and>
      apply_tags [[''type'' \<mapsto> PyStr ''filter''], [''numargs_expected'' \<mapsto> PyInt 2]] empty_heap (PyFunction 2)
        = (hg, Ref 0) \<and>
      objects hf 1 = objects empty_heap 1 \<and>
      decorators (objects hf 0) ''type'' = decorators (objects hg 0) ''type'' \<and>
      decorators (objects hf 0) ''function'' = Some (PyFunction 1) \<and>
      decorators (objects hg 0) ''function'' = Some (PyFunction 2))"
proof -
  let ?t = "[''type'' \<mapsto> PyStr ''filter'']"
  let ?ts = "[[''numargs_expected'' \<mapsto> PyInt 2]]"
  have p: "\<not> isinstance_DecoratedFunction (PyFunction 1)" and q: "\<not> isinstance_DecoratedFunction (PyFunction 2)"
    by simp_all
  have u: "\<forall>u \<in> set (?t # ?ts). u ''function'' = None" by simp
  have n: "next_addr empty_heap = 0" by (simp add: empty_heap_def)
  from callable_only_stored [OF p q, of ?t ?ts empty_heap]
  obtain hf hg where
    af: "apply_tags (?t # ?ts) empty_heap (PyFunction 1) = (hf, Ref 0)" and
    ag: "apply_tags (?t # ?ts) empty_heap (PyFunction 2) = (hg, Ref 0)" and
    o: "\<forall>b. b \<noteq> 0 \<longrightarrow> objects hf b = objects empty_heap b \<and> objects hg b = objects empty_heap b" and
    k: "\<forall>k. k \<noteq> ''function'' \<longrightarrow> decorators (objects hf 0) k = decorators (objects hg 0) k" and
    s: "(\<forall>u \<in> set (?t # ?ts). u ''function'' = None) \<longrightarrow>
          decorators (objects hf 0) ''function'' = Some (PyFunction 1) \<and>
          decorators (objects hg 0) ''function'' = Some (PyFunction 2)"
    unfolding n by (elim exE conjE)
  from o have o1: "objects hf 1 = objects empty_heap 1" by simp
  from k have k1: "decorators (objects hf 0) ''type'' = decorators (objects hg 0) ''type''" by simp
  from s u have s1: "decorators (objects hf 0) ''function'' = Some (PyFunction 1)"
    and s2: "decorators (objects hg 0) ''function'' = Some (PyFunction 2)" by blast+
  have v: "[''type'' \<mapsto> PyStr ''filter''] ''function'' = None"
    and w: "[''numargs_expected'' \<mapsto> PyInt 2] ''function'' = None"
    by simp_all
  from p q v w af ag o1 k1 s1 s2 show ?thesis by blast
qed

subsection \<open>Algebra of decorators\<close>

text \<open>
  C7. Applying a decorator with a given attribute dict to any value, and then the same
  decorator again to the result, returns the same descriptor and leaves the store as it
  was after the first application.
\<close>

theorem tagging_idempotent:
  "\<exists>h1 d. function_decorator additional_parameters h v = (h1, d) \<and>
           function_decorator additional_parameters h1 d = (h1, d)"
proof -
  obtain hx a where 1: "fun_decorator additional_parameters h v = (update a additional_parameters hx, Ref a)"
    using fun_decorator_shape by blast
  have "fun_decorator additional_parameters (update a additional_parameters hx) (Ref a)
          = (update a (additional_parameters ++ additional_parameters) hx, Ref a)"
    by (simp add: fun_decorator_Ref update_update)
  then have "fun_decorator additional_parameters (update a additional_parameters hx) (Ref a)
          = (update a additional_parameters hx, Ref a)"
    by (simp add: map_add_idem)
  with 1 show ?thesis unfolding function_decorator_def by blast
qed

text \<open>
  C8. Two decorators whose attribute dicts have no key in common can be applied in
  either order: the store and the descriptor returned are the same. This holds for an
  existing descriptor and for a plain callable alike.
\<close>

theorem disjoint_tags_commute:
  assumes "dom t1 \<inter> dom t2 = {}"
  shows "apply_tags [t1, t2] h v = apply_tags [t2, t1] h v"
proof -
  have c: "t1 ++ t2 = t2 ++ t1" using assms by (rule map_add_comm)
  show ?thesis
  proof (cases "isinstance_DecoratedFunction v")
    case True
    then obtain a where "v = Ref a" using isinstance_Ref by blast
    then show ?thesis using c by (simp add: apply_tags_Ref)
  next
    case False
    have "(m ++ t1) ++ t2 = (m ++ t2) ++ t1" for m :: dict
      using c by (metis map_add_assoc)
    then show ?thesis unfolding apply_tags_plain [OF False] by simp
  qed
qed

theorem disjoint_tags_commute_witness:
  "dom [''numargs_expected'' \<mapsto> PyInt 2] \<inter> dom [''type'' \<mapsto> PyStr ''filter''] = {} \<and>
   apply_tags [[''numargs_expected'' \<mapsto> PyInt 2], [''type'' \<mapsto> PyStr ''filter'']]
     (fst (python_list_expected empty_heap (PyFunction 1))) (Ref 0)
   = apply_tags [[''type'' \<mapsto> PyStr ''filter''], [''numargs_expected'' \<mapsto> PyInt 2]]
     (fst (python_list_expected empty_heap (PyFunction 1))) (Ref 0)"
proof -
  have d: "dom [''numargs_expected'' \<mapsto> PyInt 2] \<inter> dom [''type'' \<mapsto> PyStr ''filter''] = {}"
    by simp
  from d disjoint_tags_commute [OF d, of "fst (python_list_expected empty_heap (PyFunction 1))" "Ref 0"]
  show ?thesis by (rule conjI)
qed

subsection \<open>Two scenarios\<close>

text \<open>
  C9. For a plain function \<open>f\<close>, map(['a', 'b']) followed by numargs_expected(2) gives a
  descriptor with type 'map', produces ['a', 'b'], numargs_expected 2 and
  function \<open>f\<close> itself; the second application returns the descriptor the first one
  created.
\<close>

theorem map_then_numargs_expected:
  "\<exists>h1 h2 dff. map_py (Some (PyList [PyStr ''a'', PyStr ''b''])) h (PyFunction f) = (h1, Ref dff) \<and>
      numargs_expected (PyInt 2) h1 (Ref dff) = (h2, Ref dff) \<and>
      decorators (objects h2 dff) ''type'' = Some (PyStr ''map'') \<and>
      decorators (objects h2 dff) ''produces'' = Some (PyList [PyStr ''a'', PyStr ''b'']) \<and>
      decorators (objects h2 dff) ''numargs_expected'' = Some (PyInt 2) \<and>
      decorators (objects h2 dff) ''function'' = Some (PyFunction f)"
proof -
  let ?m = "[''type'' \<mapsto> PyStr ''map'', ''produces'' \<mapsto> PyList [PyStr ''a'', PyStr ''b'']]"
  let ?n = "[''numargs_expected'' \<mapsto> PyInt 2]"
  let ?h1 = "allocate h \<lparr>decorators = initial_decorators (PyFunction f) ++ ?m\<rparr>"
  let ?h2 = "allocate h \<lparr>decorators = (initial_decorators (PyFunction f) ++ ?m) ++ ?n\<rparr>"
  have 1: "map_py (Some (PyList [PyStr ''a'', PyStr ''b''])) h (PyFunction f) = (?h1, Ref (next_addr h))"
    by (simp add: map_py_def default_arg_def function_decorator_def fun_decorator_plain)
  have 2: "numargs_expected (PyInt 2) ?h1 (Ref (next_addr h)) = (?h2, Ref (next_addr h))"
    unfolding numargs_expected_def function_decorator_def fun_decorator_Ref update_allocate ..
  have 3: "decorators (objects ?h2 (next_addr h)) = (initial_decorators (PyFunction f) ++ ?m) ++ ?n"
    by (rule decorators_allocate)
  have 4: "((initial_decorators (PyFunction f) ++ ?m) ++ ?n) ''type'' = Some (PyStr ''map'')"
    "((initial_decorators (PyFunction f) ++ ?m) ++ ?n) ''produces'' = Some (PyList [PyStr ''a'', PyStr ''b''])"
    "((initial_decorators (PyFunction f) ++ ?m) ++ ?n) ''numargs_expected'' = Some (PyInt 2)"
    "((initial_decorators (PyFunction f) ++ ?m) ++ ?n) ''function'' = Some (PyFunction f)"
    by (simp_all add: initial_decorators_def)
  show ?thesis
    apply (rule exI [of _ ?h1])
    apply (rule exI [of _ ?h2])
    apply (rule exI [of _ "next_addr h"])
    apply (simp only: 1 2 3 4 simp_thms)
    done
qed

text \<open>
  C10. map and reduce always write the key produces: called without an argument on an
  existing descriptor they set it to \<open>None\<close>, whatever it was before, and called with
  \<open>p\<close> they set it to \<open>p\<close>. filter writes the key type only and leaves produces as it was.
\<close>

theorem produces_overwritten_by_map_reduce_not_filter:
  "(\<exists>h'. map_py None h (Ref a) = (h', Ref a) \<and>
       decorators (objects h' a) ''type'' = Some (PyStr ''map'') \<and>
       decorators (objects h' a) ''produces'' = Some PyNone) \<and>
   (\<exists>h'. reduce None h (Ref a) = (h', Ref a) \<and>
       decorators (objects h' a) ''type'' = Some (PyStr ''reduce'') \<and>
       decorators (objects h' a) ''produces'' = Some PyNone) \<and>
   (\<exists>h'. map_py (Some p) h (Ref a) = (h', Ref a) \<and>
       decorators (objects h' a) ''type'' = Some (PyStr ''map'') \<and>
       decorators (objects h' a) ''produces'' = Some p) \<and>
   (\<exists>h'. reduce (Some p) h (Ref a) = (h', Ref a) \<and>
       decorators (objects h' a) ''type'' = Some (PyStr ''reduce'') \<and>
       decorators (objects h' a) ''produces'' = Some p) \<and>
   (\<exists>h'. filter_py h (Ref a) = (h', Ref a) \<and>
       decorators (objects h' a) ''type'' = Some (PyStr ''filter'') \<and>
       decorators (objects h' a) ''produces'' = decorators (objects h a) ''produces'')"
proof -
  have two: "\<exists>h'. function_decorator [''type'' \<mapsto> t, ''produces'' \<mapsto> x] h (Ref a) = (h', Ref a) \<and>
       decorators (objects h' a) ''type'' = Some t \<and>
       decorators (objects h' a) ''produces'' = Some x" for t x
    by (simp add: function_decorator_def fun_decorator_Ref decorators_update)
  have f: "\<exists>h'. function_decorator [''type'' \<mapsto> PyStr ''filter''] h (Ref a) = (h', Ref a) \<and>
       decorators (objects h' a) ''type'' = Some (PyStr ''filter'') \<and>
       decorators (objects h' a) ''produces'' = decorators (objects h a) ''produces''"
    by (simp add: function_decorator_def fun_decorator_Ref decorators_update map_add_def)
  have d: "default_arg None = PyNone" "default_arg (Some p) = p"
    by (simp_all add: default_arg_def)
  show ?thesis
    unfolding map_py_def reduce_def filter_py_def d
    by (intro conjI two f)
qed

end
